theory Spec2Isabelle
  imports Main "HOL-Library.Sublist"
begin

section \<open>The task list of SimpleTodoList (TodoList.py)\<close>

text \<open>
  The data core of the program is the two classes \<^verbatim>\<open>Task\<close> and \<^verbatim>\<open>TodoList\<close>.
  Objects become records, the methods become functions that take the object and return
  the object after the call, and a raised exception is the left summand of the result.

  Python integers are unbounded, so an index is an \<^typ>\<open>int\<close>. A Python \<^verbatim>\<open>str\<close> is a
  \<^typ>\<open>string\<close>; the only operations the core applies to its texts are the test for
  emptiness and concatenation, which the encoding of a text as a list of characters
  preserves.

  Every \<^verbatim>\<open>Task\<close> in \<^verbatim>\<open>TodoList.tasks\<close> is created by \<^verbatim>\<open>add_task\<close> and is referenced from
  that list alone, so no object occurs at two positions and an assignment to an attribute
  of the object at one position is the replacement of the record at that position.
\<close>

subsection \<open>Class \<^verbatim>\<open>Task\<close>\<close>

record task =
  title :: string
  due_date :: string
  priority :: string
  is_completed :: bool

text \<open>\<^verbatim>\<open>Task.__init__(self, title, due_date, priority)\<close>\<close>

definition Task_init :: "string \<Rightarrow> string \<Rightarrow> string \<Rightarrow> task" where
  "Task_init title' due_date' priority' =
     \<lparr>title = title', due_date = due_date', priority = priority', is_completed = False\<rparr>"

text \<open>
  \<^verbatim>\<open>Task.__str__(self)\<close>: the f-string is the concatenation of its literal parts and of
  the texts of its fields.
\<close>

definition Task_str :: "task \<Rightarrow> string" where
  "Task_str self =
     (let status = (if is_completed self then ''Completed'' else ''Not Completed'')
      in concat [title self, '' - '', due_date self, '' - '', priority self, '' - '', status])"

subsection \<open>Python's list operations\<close>

datatype error = IndexError

text \<open>
  The position an index denotes in a list: Python adds the length to a negative index
  and raises \<^verbatim>\<open>IndexError\<close> when the result is not a position of the list.
\<close>

definition list_index :: "'a list \<Rightarrow> int \<Rightarrow> error + nat" where
  "list_index xs i =
     (let n = int (length xs);
          j = (if i < 0 then i + n else i)
      in if 0 \<le> j \<and> j < n then Inr (nat j) else Inl IndexError)"

text \<open>\<^verbatim>\<open>xs[i]\<close>\<close>

definition list_getitem :: "'a list \<Rightarrow> int \<Rightarrow> error + 'a" where
  "list_getitem xs i =
     (case list_index xs i of Inl e \<Rightarrow> Inl e | Inr k \<Rightarrow> Inr (xs ! k))"

text \<open>\<^verbatim>\<open>xs.append(x)\<close>\<close>

definition list_append :: "'a list \<Rightarrow> 'a \<Rightarrow> 'a list" where
  "list_append xs x = xs @ [x]"

text \<open>\<^verbatim>\<open>xs.pop(i)\<close>: the element removed and the list that remains.\<close>

definition list_pop :: "'a list \<Rightarrow> int \<Rightarrow> error + ('a \<times> 'a list)" where
  "list_pop xs i =
     (case list_index xs i of
        Inl e \<Rightarrow> Inl e
      | Inr k \<Rightarrow> Inr (xs ! k, take k xs @ drop (Suc k) xs))"

text \<open>
  The truth value of an optional text argument: \<^verbatim>\<open>None\<close> and the empty text are false.
\<close>

fun truthy :: "string option \<Rightarrow> bool" where
  "truthy None = False"
| "truthy (Some s) = (s \<noteq> [])"

text \<open>Two calls one after the other: an exception of the first ends the sequence.\<close>

definition and_then :: "error + 'a \<Rightarrow> ('a \<Rightarrow> error + 'b) \<Rightarrow> error + 'b" where
  "and_then r f = (case r of Inl e \<Rightarrow> Inl e | Inr s \<Rightarrow> f s)"

subsection \<open>Class \<^verbatim>\<open>TodoList\<close>\<close>

record todo_list =
  tasks :: "task list"

text \<open>\<^verbatim>\<open>TodoList.__init__(self)\<close>\<close>

definition TodoList_init :: todo_list where
  "TodoList_init = \<lparr>tasks = []\<rparr>"

text \<open>\<^verbatim>\<open>TodoList.add_task(self, title, due_date, priority)\<close>\<close>

definition add_task :: "todo_list \<Rightarrow> string \<Rightarrow> string \<Rightarrow> string \<Rightarrow> error + todo_list" where
  "add_task self title' due_date' priority' =
     (let new_task = Task_init title' due_date' priority'
      in Inr (self\<lparr>tasks := list_append (tasks self) new_task\<rparr>))"

text \<open>\<^verbatim>\<open>TodoList.remove_task(self, task_index)\<close>\<close>

definition remove_task :: "todo_list \<Rightarrow> int \<Rightarrow> error + todo_list" where
  "remove_task self task_index =
     (if 0 \<le> task_index \<and> task_index < int (length (tasks self))
      then (case list_pop (tasks self) task_index of
              Inl e \<Rightarrow> Inl e
            | Inr (popped, rest) \<Rightarrow> Inr (self\<lparr>tasks := rest\<rparr>))
      else Inr self)"

text \<open>
  \<^verbatim>\<open>TodoList.edit_task(self, task_index, title=None, due_date=None, priority=None)\<close>:
  the lookup \<^verbatim>\<open>self.tasks[task_index]\<close> comes first, then the three guarded assignments
  to the object found.
\<close>

definition edit_task ::
    "todo_list \<Rightarrow> int \<Rightarrow> string option \<Rightarrow> string option \<Rightarrow> string option \<Rightarrow> error + todo_list" where
  "edit_task self task_index title' due_date' priority' =
     (case list_index (tasks self) task_index of
        Inl e \<Rightarrow> Inl e
      | Inr k \<Rightarrow>
          (let task0 = tasks self ! k;
               task1 = (if truthy title' then task0\<lparr>title := the title'\<rparr> else task0);
               task2 = (if truthy due_date' then task1\<lparr>due_date := the due_date'\<rparr> else task1);
               task3 = (if truthy priority' then task2\<lparr>priority := the priority'\<rparr> else task2)
           in Inr (self\<lparr>tasks := (tasks self)[k := task3]\<rparr>)))"

text \<open>\<^verbatim>\<open>TodoList.mark_completed(self, task_index)\<close>\<close>

definition mark_completed :: "todo_list \<Rightarrow> int \<Rightarrow> error + todo_list" where
  "mark_completed self task_index =
     (case list_index (tasks self) task_index of
        Inl e \<Rightarrow> Inl e
      | Inr k \<Rightarrow> Inr (self\<lparr>tasks := (tasks self)[k := (tasks self ! k)\<lparr>is_completed := True\<rparr>]\<rparr>))"

text \<open>\<^verbatim>\<open>TodoList.mark_incomplete(self, task_index)\<close>\<close>

definition mark_incomplete :: "todo_list \<Rightarrow> int \<Rightarrow> error + todo_list" where
  "mark_incomplete self task_index =
     (case list_index (tasks self) task_index of
        Inl e \<Rightarrow> Inl e
      | Inr k \<Rightarrow> Inr (self\<lparr>tasks := (tasks self)[k := (tasks self ! k)\<lparr>is_completed := False\<rparr>]\<rparr>))"

subsection \<open>An example state\<close>

text \<open>The list after three calls of \<^verbatim>\<open>add_task\<close>, used to instantiate the theorems below.\<close>

definition demo_list :: todo_list where
  "demo_list =
     \<lparr>tasks = [Task_init ''A'' ''2024-01-01'' ''Low'',
               Task_init ''B'' ''2024-01-02'' ''High'',
               Task_init ''C'' ''2024-01-03'' ''Medium'']\<rparr>"

section \<open>Properties\<close>

subsection \<open>Indices\<close>

lemma list_index_valid:
  "0 \<le> i \<Longrightarrow> i < int (length xs) \<Longrightarrow> list_index xs i = Inr (nat i)"
  by (simp add: list_index_def)

lemma list_index_negative:
  "- int (length xs) \<le> i \<Longrightarrow> i < 0 \<Longrightarrow> list_index xs i = Inr (nat (int (length xs) + i))"
  by (simp add: list_index_def Let_def add.commute)

lemma list_index_outside:
  "int (length xs) \<le> i \<or> i < - int (length xs) \<Longrightarrow> list_index xs i = Inl IndexError"
  by (auto simp: list_index_def Let_def)

subsection \<open>Deleting one position of a list\<close>

lemma nth_delete_before:
  "j < k \<Longrightarrow> k < length xs \<Longrightarrow> (take k xs @ drop (Suc k) xs) ! j = xs ! j"
  by (simp add: nth_append)

lemma nth_delete_after:
  "k < j \<Longrightarrow> j < length xs \<Longrightarrow> (take k xs @ drop (Suc k) xs) ! (j - 1) = xs ! j"
  by (auto simp: nth_append min_def)

lemma subseq_delete:
  "subseq (take k xs @ drop (Suc k) xs) xs"
proof (cases "k < length xs")
  case True
  then have "xs = take k xs @ xs ! k # drop (Suc k) xs"
    by (rule id_take_nth_drop)
  moreover have "subseq (take k xs @ drop (Suc k) xs) (take k xs @ xs ! k # drop (Suc k) xs)"
    by (simp add: subseq_append' list_emb_Cons)
  ultimately show ?thesis by simp
next
  case False
  then show ?thesis by simp
qed

subsection \<open>Indexing faults of \<^verbatim>\<open>edit_task\<close>, \<^verbatim>\<open>mark_completed\<close> and \<^verbatim>\<open>mark_incomplete\<close>\<close>

text \<open>
  Claim C1, as the code has it: for an index \<open>i\<close> with \<open>i \<ge> length\<close> or \<open>i < - length\<close> the
  three operations raise \<^verbatim>\<open>IndexError\<close>, which the data core does not catch, so it is the
  result of the call.
\<close>

theorem index_fault_outside:
  assumes "int (length (tasks self)) \<le> i \<or> i < - int (length (tasks self))"
  shows "edit_task self i t d p = Inl IndexError
       \<and> mark_completed self i = Inl IndexError
       \<and> mark_incomplete self i = Inl IndexError"
  using assms
  by (simp add: edit_task_def mark_completed_def mark_incomplete_def list_index_outside)

theorem index_fault_outside_witness:
  "(int (length (tasks demo_list)) \<le> - 4 \<or> - 4 < - int (length (tasks demo_list)))
   \<and> edit_task demo_list (- 4) (Some ''T'') None None = Inl IndexError
   \<and> mark_completed demo_list (- 4) = Inl IndexError
   \<and> mark_incomplete demo_list (- 4) = Inl IndexError"
proof -
  have h: "int (length (tasks demo_list)) \<le> - 4 \<or> - 4 < - int (length (tasks demo_list))"
    by (simp add: demo_list_def)
  from h index_fault_outside [OF h] show ?thesis by blast
qed

text \<open>
  Claim C1 as it is written, with a fault at every negative index, fails: on a list of one
  task the index \<open>-1\<close> is below \<open>0\<close>, and the three operations return normally, having
  worked on the task at position \<open>0\<close>.
\<close>

theorem negative_index_no_fault_counterexample:
  "(- 1::int) < 0
   \<and> mark_completed \<lparr>tasks = [Task_init ''A'' ''2024-01-01'' ''Low'']\<rparr> (- 1)
       = Inr \<lparr>tasks = [\<lparr>title = ''A'', due_date = ''2024-01-01'', priority = ''Low'',
                         is_completed = True\<rparr>]\<rparr>
   \<and> mark_incomplete \<lparr>tasks = [Task_init ''A'' ''2024-01-01'' ''Low'']\<rparr> (- 1)
       = Inr \<lparr>tasks = [\<lparr>title = ''A'', due_date = ''2024-01-01'', priority = ''Low'',
                         is_completed = False\<rparr>]\<rparr>
   \<and> edit_task \<lparr>tasks = [Task_init ''A'' ''2024-01-01'' ''Low'']\<rparr> (- 1) (Some ''Z'') None None
       = Inr \<lparr>tasks = [\<lparr>title = ''Z'', due_date = ''2024-01-01'', priority = ''Low'',
                         is_completed = False\<rparr>]\<rparr>"
  by (simp add: mark_completed_def mark_incomplete_def edit_task_def list_index_def Task_init_def)

subsection \<open>\<^verbatim>\<open>remove_task\<close>\<close>

text \<open>
  Claim C2: for \<open>0 \<le> i < length\<close>, \<^verbatim>\<open>remove_task\<close> returns normally, the list is shorter
  by exactly one, the tasks before position \<open>i\<close> stay where they were, every task at a
  position \<open>j > i\<close> is found at \<open>j - 1\<close>, and the tasks that remain are in their former order
  (the new list is a subsequence of the old one).
\<close>

theorem remove_task_in_range:
  assumes "0 \<le> i" and "i < int (length (tasks self))"
  shows "\<exists>self'. remove_task self i = Inr self'
           \<and> Suc (length (tasks self')) = length (tasks self)
           \<and> (\<forall>j. j < nat i \<longrightarrow> tasks self' ! j = tasks self ! j)
           \<and> (\<forall>j. nat i < j \<and> j < length (tasks self) \<longrightarrow> tasks self' ! (j - 1) = tasks self ! j)
           \<and> subseq (tasks self') (tasks self)"
proof -
  let ?k = "nat i" and ?xs = "tasks self"
  let ?ys = "take ?k ?xs @ drop (Suc ?k) ?xs"
  from assms have k: "?k < length ?xs" by simp
  from assms have run: "remove_task self i = Inr (self\<lparr>tasks := ?ys\<rparr>)"
    by (simp add: remove_task_def list_pop_def list_index_valid)
  from k have len: "Suc (length ?ys) = length ?xs" by simp
  from k have before: "\<forall>j. j < ?k \<longrightarrow> ?ys ! j = ?xs ! j"
    by (simp add: nth_delete_before)
  have after: "\<forall>j. ?k < j \<and> j < length ?xs \<longrightarrow> ?ys ! (j - 1) = ?xs ! j"
    using k nth_delete_after [of ?k _ ?xs] by blast
  have order: "subseq ?ys ?xs" by (rule subseq_delete)
  from run len before after order show ?thesis by simp
qed

theorem remove_task_in_range_witness:
  "(0::int) \<le> 1 \<and> (1::int) < int (length (tasks demo_list))
   \<and> (\<exists>self'. remove_task demo_list 1 = Inr self'
           \<and> Suc (length (tasks self')) = length (tasks demo_list)
           \<and> (\<forall>j. j < nat 1 \<longrightarrow> tasks self' ! j = tasks demo_list ! j)
           \<and> (\<forall>j. nat 1 < j \<and> j < length (tasks demo_list)
                  \<longrightarrow> tasks self' ! (j - 1) = tasks demo_list ! j)
           \<and> subseq (tasks self') (tasks demo_list))"
proof -
  have h1: "(0::int) \<le> 1" by simp
  have h2: "(1::int) < int (length (tasks demo_list))" by (simp add: demo_list_def)
  from h1 h2 remove_task_in_range [OF h1 h2] show ?thesis by blast
qed

text \<open>
  Claim C3: for \<open>i < 0\<close> or \<open>i \<ge> length\<close>, \<^verbatim>\<open>remove_task\<close> returns normally and the whole
  state is the one before the call.
\<close>

theorem remove_task_out_of_range:
  assumes "i < 0 \<or> int (length (tasks self)) \<le> i"
  shows "remove_task self i = Inr self"
  using assms by (auto simp: remove_task_def)

theorem remove_task_out_of_range_witness:
  "((- 1::int) < 0 \<or> int (length (tasks demo_list)) \<le> - 1)
   \<and> remove_task demo_list (- 1) = Inr demo_list
   \<and> ((3::int) < 0 \<or> int (length (tasks demo_list)) \<le> 3)
   \<and> remove_task demo_list 3 = Inr demo_list"
proof -
  have h1: "(- 1::int) < 0 \<or> int (length (tasks demo_list)) \<le> - 1" by simp
  have h2: "(3::int) < 0 \<or> int (length (tasks demo_list)) \<le> 3" by (simp add: demo_list_def)
  from h1 h2 remove_task_out_of_range [OF h1] remove_task_out_of_range [OF h2]
  show ?thesis by blast
qed

subsection \<open>\<^verbatim>\<open>add_task\<close>\<close>

text \<open>
  Claim C4: \<^verbatim>\<open>add_task\<close> returns normally for every list and every three texts, the list
  is longer by exactly one, and the lookup at position \<open>n\<close> (the former length, which is
  the new length minus one) finds a task with the given title, due date and priority and
  with \<open>is_completed = False\<close>. The tasks that were in the list are in front of it.
\<close>

theorem add_task_appends:
  "\<exists>self'. add_task self t d p = Inr self'
      \<and> length (tasks self') = Suc (length (tasks self))
      \<and> list_getitem (tasks self') (int (length (tasks self)))
          = Inr \<lparr>title = t, due_date = d, priority = p, is_completed = False\<rparr>
      \<and> list_getitem (tasks self') (int (length (tasks self')) - 1)
          = Inr \<lparr>title = t, due_date = d, priority = p, is_completed = False\<rparr>
      \<and> take (length (tasks self)) (tasks self') = tasks self"
  by (simp add: add_task_def list_append_def list_getitem_def list_index_def Task_init_def)

subsection \<open>\<^verbatim>\<open>Task.__str__\<close>\<close>

text \<open>
  Claim C6: the text of a task is its title, due date, priority and status, separated by
  \<open>" - "\<close>, where the status is \<open>"Completed"\<close> when \<open>is_completed\<close> holds and
  \<open>"Not Completed"\<close> otherwise; the task \<open>Buy milk\<close> of the specification gives exactly the
  text stated there. The result is a function of the task alone.
\<close>

theorem Task_str_format:
  "Task_str self =
     title self @ '' - '' @ due_date self @ '' - '' @ priority self @ '' - ''
       @ (if is_completed self then ''Completed'' else ''Not Completed'')
   \<and> Task_str \<lparr>title = ''Buy milk'', due_date = ''2024-01-01'', priority = ''High'',
                is_completed = False\<rparr>
       = ''Buy milk - 2024-01-01 - High - Not Completed''"
  by (simp add: Task_str_def)

subsection \<open>A scenario\<close>

text \<open>
  Claim C8: from the empty list, adding \<open>A\<close>, adding \<open>B\<close> and removing position \<open>0\<close> leaves
  the list whose only task, at position \<open>0\<close>, is \<open>B\<close> as \<^verbatim>\<open>Task("B","2024-01-02","High")\<close>
  constructs it.
\<close>

theorem add_add_remove_scenario:
  "and_then (and_then (add_task TodoList_init ''A'' ''2024-01-01'' ''Low'')
                      (\<lambda>s. add_task s ''B'' ''2024-01-02'' ''High''))
            (\<lambda>s. remove_task s 0)
     = Inr \<lparr>tasks = [\<lparr>title = ''B'', due_date = ''2024-01-02'', priority = ''High'',
                       is_completed = False\<rparr>]\<rparr>"
  by (simp add: and_then_def add_task_def remove_task_def TodoList_init_def list_append_def
        list_pop_def list_index_def Task_init_def)

subsection \<open>\<^verbatim>\<open>edit_task\<close>\<close>

text \<open>
  Claim C5: at an index \<open>i\<close> with \<open>0 \<le> i < length\<close>, the call
  \<^verbatim>\<open>edit_task(i, title="", due_date=x, priority="")\<close> with a text \<open>x\<close> that is not empty
  (\<open>"X"\<close> in the specification) changes the due date of the task at \<open>i\<close> to \<open>x\<close> and nothing
  else: title and priority keep the values they had. And for any arguments whatever, a
  field of that task that is empty after the call was empty before it, so no call sets a
  field to the empty text.
\<close>

theorem edit_task_empty_text_ignored:
  assumes "0 \<le> i" and "i < int (length (tasks self))" and "x \<noteq> []"
  shows "edit_task self i (Some []) (Some x) (Some [])
           = Inr (self\<lparr>tasks := (tasks self)[nat i := (tasks self ! nat i)\<lparr>due_date := x\<rparr>]\<rparr>)
       \<and> (\<exists>self'. edit_task self i t d p = Inr self'
             \<and> (title (tasks self' ! nat i) = [] \<longrightarrow> title (tasks self ! nat i) = [])
             \<and> (due_date (tasks self' ! nat i) = [] \<longrightarrow> due_date (tasks self ! nat i) = [])
             \<and> (priority (tasks self' ! nat i) = [] \<longrightarrow> priority (tasks self ! nat i) = []))"
proof -
  from assms have k: "list_index (tasks self) i = Inr (nat i)"
    and l: "nat i < length (tasks self)"
    by (simp_all add: list_index_valid)
  from k assms(3) have one: "edit_task self i (Some []) (Some x) (Some [])
      = Inr (self\<lparr>tasks := (tasks self)[nat i := (tasks self ! nat i)\<lparr>due_date := x\<rparr>]\<rparr>)"
    by (simp add: edit_task_def)
  have two: "\<exists>self'. edit_task self i t d p = Inr self'
             \<and> (title (tasks self' ! nat i) = [] \<longrightarrow> title (tasks self ! nat i) = [])
             \<and> (due_date (tasks self' ! nat i) = [] \<longrightarrow> due_date (tasks self ! nat i) = [])
             \<and> (priority (tasks self' ! nat i) = [] \<longrightarrow> priority (tasks self ! nat i) = [])"
    using k l by (cases t; cases d; cases p) (simp_all add: edit_task_def Let_def)
  from one two show ?thesis by blast
qed

theorem edit_task_empty_text_ignored_witness:
  "(0::int) \<le> 1 \<and> (1::int) < int (length (tasks demo_list)) \<and> ''X'' \<noteq> []
   \<and> edit_task demo_list 1 (Some []) (Some ''X'') (Some [])
       = Inr \<lparr>tasks = [Task_init ''A'' ''2024-01-01'' ''Low'',
                       \<lparr>title = ''B'', due_date = ''X'', priority = ''High'',
                          is_completed = False\<rparr>,
                       Task_init ''C'' ''2024-01-03'' ''Medium'']\<rparr>"
proof -
  have h1: "(0::int) \<le> 1" by simp
  have h2: "(1::int) < int (length (tasks demo_list))" by (simp add: demo_list_def)
  have h3: "''X'' \<noteq> []" by simp
  from edit_task_empty_text_ignored [OF h1 h2 h3]
  have "edit_task demo_list 1 (Some []) (Some ''X'') (Some [])
          = Inr (demo_list\<lparr>tasks :=
                   (tasks demo_list)[nat 1 := (tasks demo_list ! nat 1)\<lparr>due_date := ''X''\<rparr>]\<rparr>)"
    by blast
  then have "edit_task demo_list 1 (Some []) (Some ''X'') (Some [])
       = Inr \<lparr>tasks = [Task_init ''A'' ''2024-01-01'' ''Low'',
                       \<lparr>title = ''B'', due_date = ''X'', priority = ''High'',
                          is_completed = False\<rparr>,
                       Task_init ''C'' ''2024-01-03'' ''Medium'']\<rparr>"
    by (simp add: demo_list_def Task_init_def)
  with h1 h2 h3 show ?thesis by blast
qed

subsection \<open>\<^verbatim>\<open>mark_completed\<close> and \<^verbatim>\<open>mark_incomplete\<close>\<close>

text \<open>
  Claim C7: at an index \<open>i\<close> with \<open>0 \<le> i < length\<close> whose task is not completed,
  \<^verbatim>\<open>mark_completed(i)\<close> returns normally with the task completed, and \<^verbatim>\<open>mark_incomplete(i)\<close>
  after it returns normally with \<open>is_completed\<close> of the task false again; the state after
  the two calls is the state before them.
\<close>

theorem mark_completed_then_incomplete:
  assumes "0 \<le> i" and "i < int (length (tasks self))"
    and "\<not> is_completed (tasks self ! nat i)"
  shows "\<exists>s1 s2. mark_completed self i = Inr s1
           \<and> is_completed (tasks s1 ! nat i)
           \<and> mark_incomplete s1 i = Inr s2
           \<and> \<not> is_completed (tasks s2 ! nat i)
           \<and> s2 = self"
proof -
  let ?k = "nat i" and ?xs = "tasks self"
  let ?s1 = "self\<lparr>tasks := ?xs[?k := (?xs ! ?k)\<lparr>is_completed := True\<rparr>]\<rparr>"
  from assms have k: "list_index ?xs i = Inr ?k" and l: "?k < length ?xs"
    by (simp_all add: list_index_valid)
  from k have a: "mark_completed self i = Inr ?s1"
    by (simp add: mark_completed_def)
  from l have b: "is_completed (tasks ?s1 ! ?k)" by simp
  from assms have k1: "list_index (tasks ?s1) i = Inr ?k"
    by (simp add: list_index_valid)
  from assms(3) have same: "(?xs ! ?k)\<lparr>is_completed := False\<rparr> = ?xs ! ?k" by simp
  from k1 l have "mark_incomplete ?s1 i
      = Inr (self\<lparr>tasks := ?xs[?k := (?xs ! ?k)\<lparr>is_completed := False\<rparr>]\<rparr>)"
    by (simp add: mark_incomplete_def)
  with same have c: "mark_incomplete ?s1 i = Inr self" by simp
  from a b c assms(3) show ?thesis by blast
qed

theorem mark_completed_then_incomplete_witness:
  "(0::int) \<le> 2 \<and> (2::int) < int (length (tasks demo_list))
   \<and> \<not> is_completed (tasks demo_list ! nat 2)
   \<and> (\<exists>s1 s2. mark_completed demo_list 2 = Inr s1
           \<and> is_completed (tasks s1 ! nat 2)
           \<and> mark_incomplete s1 2 = Inr s2
           \<and> \<not> is_completed (tasks s2 ! nat 2)
           \<and> s2 = demo_list)"
proof -
  have h1: "(0::int) \<le> 2" by simp
  have h2: "(2::int) < int (length (tasks demo_list))" by (simp add: demo_list_def)
  have h3: "\<not> is_completed (tasks demo_list ! nat 2)"
    by (simp add: demo_list_def Task_init_def)
  from h1 h2 h3 mark_completed_then_incomplete [OF h1 h2 h3] show ?thesis by blast
qed

text \<open>
  Claim C9: at an index \<open>i\<close> with \<open>0 \<le> i < length\<close>, \<^verbatim>\<open>mark_completed(i)\<close> and
  \<^verbatim>\<open>mark_incomplete(i)\<close> return normally; the list has the length it had, the task at every
  other position is the one that was there, title, due date and priority of the task at \<open>i\<close>
  are what they were, and its flag is true after the first and false after the second.
\<close>

theorem mark_changes_flag_only:
  assumes "0 \<le> i" and "i < int (length (tasks self))"
  shows "(\<exists>s. mark_completed self i = Inr s
            \<and> length (tasks s) = length (tasks self)
            \<and> (\<forall>j. j < length (tasks self) \<and> j \<noteq> nat i \<longrightarrow> tasks s ! j = tasks self ! j)
            \<and> title (tasks s ! nat i) = title (tasks self ! nat i)
            \<and> due_date (tasks s ! nat i) = due_date (tasks self ! nat i)
            \<and> priority (tasks s ! nat i) = priority (tasks self ! nat i)
            \<and> is_completed (tasks s ! nat i))
       \<and> (\<exists>s. mark_incomplete self i = Inr s
            \<and> length (tasks s) = length (tasks self)
            \<and> (\<forall>j. j < length (tasks self) \<and> j \<noteq> nat i \<longrightarrow> tasks s ! j = tasks self ! j)
            \<and> title (tasks s ! nat i) = title (tasks self ! nat i)
            \<and> due_date (tasks s ! nat i) = due_date (tasks self ! nat i)
            \<and> priority (tasks s ! nat i) = priority (tasks self ! nat i)
            \<and> \<not> is_completed (tasks s ! nat i))"
proof -
  from assms have k: "list_index (tasks self) i = Inr (nat i)"
    and l: "nat i < length (tasks self)"
    by (simp_all add: list_index_valid)
  from k l show ?thesis
    by (simp add: mark_completed_def mark_incomplete_def)
qed

theorem mark_changes_flag_only_witness:
  "(0::int) \<le> 1 \<and> (1::int) < int (length (tasks demo_list))
   \<and> (\<exists>s. mark_completed demo_list 1 = Inr s
            \<and> length (tasks s) = length (tasks demo_list)
            \<and> (\<forall>j. j < length (tasks demo_list) \<and> j \<noteq> nat 1
                   \<longrightarrow> tasks s ! j = tasks demo_list ! j)
            \<and> title (tasks s ! nat 1) = title (tasks demo_list ! nat 1)
            \<and> due_date (tasks s ! nat 1) = due_date (tasks demo_list ! nat 1)
            \<and> priority (tasks s ! nat 1) = priority (tasks demo_list ! nat 1)
            \<and> is_completed (tasks s ! nat 1))
   \<and> (\<exists>s. mark_incomplete demo_list 1 = Inr s
            \<and> length (tasks s) = length (tasks demo_list)
            \<and> (\<forall>j. j < length (tasks demo_list) \<and> j \<noteq> nat 1
                   \<longrightarrow> tasks s ! j = tasks demo_list ! j)
            \<and> title (tasks s ! nat 1) = title (tasks demo_list ! nat 1)
            \<and> due_date (tasks s ! nat 1) = due_date (tasks demo_list ! nat 1)
            \<and> priority (tasks s ! nat 1) = priority (tasks demo_list ! nat 1)
            \<and> \<not> is_completed (tasks s ! nat 1))"
proof -
  have h1: "(0::int) \<le> 1" by simp
  have h2: "(1::int) < int (length (tasks demo_list))" by (simp add: demo_list_def)
  from h1 h2 mark_changes_flag_only [OF h1 h2] show ?thesis by blast
qed

subsection \<open>Negative indices\<close>

text \<open>
  Claim C10: on a list of length \<open>n\<close>, for an index \<open>i\<close> with \<open>- n \<le> i \<le> -1\<close> (so that
  \<open>n \<ge> 1\<close>) the three operations raise nothing and work on the task at position \<open>n + i\<close>:
  each does what it does at the index \<open>n + i\<close>, the two marks set the flag of that task,
  and \<^verbatim>\<open>edit_task\<close> stores there every argument that is a text with characters and leaves
  the other positions alone.
\<close>

theorem negative_index_counts_from_end:
  assumes "- int (length (tasks self)) \<le> i" and "i < 0"
  shows "mark_completed self i = mark_completed self (int (length (tasks self)) + i)
       \<and> mark_incomplete self i = mark_incomplete self (int (length (tasks self)) + i)
       \<and> edit_task self i t d p = edit_task self (int (length (tasks self)) + i) t d p
       \<and> mark_completed self i
           = Inr (self\<lparr>tasks := (tasks self)[nat (int (length (tasks self)) + i)
                    := (tasks self ! nat (int (length (tasks self)) + i))
                         \<lparr>is_completed := True\<rparr>]\<rparr>)
       \<and> mark_incomplete self i
           = Inr (self\<lparr>tasks := (tasks self)[nat (int (length (tasks self)) + i)
                    := (tasks self ! nat (int (length (tasks self)) + i))
                         \<lparr>is_completed := False\<rparr>]\<rparr>)
       \<and> (\<exists>s. edit_task self i t d p = Inr s
            \<and> length (tasks s) = length (tasks self)
            \<and> (\<forall>j. j < length (tasks self) \<and> j \<noteq> nat (int (length (tasks self)) + i)
                   \<longrightarrow> tasks s ! j = tasks self ! j)
            \<and> (truthy t \<longrightarrow> title (tasks s ! nat (int (length (tasks self)) + i)) = the t)
            \<and> (truthy d \<longrightarrow> due_date (tasks s ! nat (int (length (tasks self)) + i)) = the d)
            \<and> (truthy p \<longrightarrow> priority (tasks s ! nat (int (length (tasks self)) + i)) = the p))"
proof -
  let ?n = "int (length (tasks self))"
  from assms have neg: "list_index (tasks self) i = Inr (nat (?n + i))"
    by (rule list_index_negative)
  from assms have pos: "list_index (tasks self) (?n + i) = Inr (nat (?n + i))"
    by (simp add: list_index_valid)
  from assms have l: "nat (?n + i) < length (tasks self)" by simp
  from neg pos l show ?thesis
    by (simp add: mark_completed_def mark_incomplete_def edit_task_def Let_def)
qed

theorem negative_index_counts_from_end_witness:
  "- int (length (tasks demo_list)) \<le> - 1 \<and> (- 1::int) < 0
   \<and> mark_completed demo_list (- 1)
       = Inr \<lparr>tasks = [Task_init ''A'' ''2024-01-01'' ''Low'',
                       Task_init ''B'' ''2024-01-02'' ''High'',
                       \<lparr>title = ''C'', due_date = ''2024-01-03'', priority = ''Medium'',
                          is_completed = True\<rparr>]\<rparr>
   \<and> edit_task demo_list (- 1) (Some ''Z'') None (Some [])
       = edit_task demo_list 2 (Some ''Z'') None (Some [])"
proof -
  have h1: "- int (length (tasks demo_list)) \<le> - 1" by (simp add: demo_list_def)
  have h2: "(- 1::int) < 0" by simp
  note inst = negative_index_counts_from_end [OF h1 h2, of "Some ''Z''" None "Some []"]
  from inst have "mark_completed demo_list (- 1)
      = Inr (demo_list\<lparr>tasks := (tasks demo_list)[nat (int (length (tasks demo_list)) + - 1)
               := (tasks demo_list ! nat (int (length (tasks demo_list)) + - 1))
                    \<lparr>is_completed := True\<rparr>]\<rparr>)"
    by blast
  then have a: "mark_completed demo_list (- 1)
       = Inr \<lparr>tasks = [Task_init ''A'' ''2024-01-01'' ''Low'',
                       Task_init ''B'' ''2024-01-02'' ''High'',
                       \<lparr>title = ''C'', due_date = ''2024-01-03'', priority = ''Medium'',
                          is_completed = True\<rparr>]\<rparr>"
    by (simp add: demo_list_def Task_init_def)
  from inst have "edit_task demo_list (- 1) (Some ''Z'') None (Some [])
      = edit_task demo_list (int (length (tasks demo_list)) + - 1) (Some ''Z'') None (Some [])"
    by blast
  then have b: "edit_task demo_list (- 1) (Some ''Z'') None (Some [])
      = edit_task demo_list 2 (Some ''Z'') None (Some [])"
    by (simp add: demo_list_def)
  from h1 h2 a b show ?thesis by blast
qed

end
